theory Spec2Isabelle
  imports Main "HOL-Library.Word"
begin

unbundle bit_operations_syntax

section \<open>Parameters of interest: \<open>hepstats/hypotests/parameters.py\<close>\<close>

text \<open>
  The module defines two classes, \<open>POIarray\<close> and its subclass \<open>POI\<close>, and the function
  \<open>asarray\<close>. Objects live in a heap and are handled through references, so that "a new object"
  and "the receiver is unchanged" are statements about the heap. The numpy array held in
  \<open>_values\<close> is a list of IEEE-754 binary64 bit patterns: no method of the module writes into
  an array, so arrays are kept as values inside the objects.
\<close>

subsection \<open>Python exceptions\<close>

datatype error = ValueError | TypeError | IndexError | OverflowError | AttributeError

subsection \<open>64-bit floats as bit patterns\<close>

text \<open>
  A \<open>numpy.float64\<close> (and a Python \<open>float\<close>) is one sign bit, eleven exponent bits and 52
  fraction bits. Only comparison with \<open>==\<close> and the raw bytes are used by the module; both
  are functions of the bit pattern.
\<close>

datatype float64 = F64 (sign: bool) (expo: "11 word") (frac: "52 word")

definition is_nan :: "float64 \<Rightarrow> bool" where
  "is_nan x = (expo x = 2047 \<and> frac x \<noteq> 0)"

definition is_zero :: "float64 \<Rightarrow> bool" where
  "is_zero x = (expo x = 0 \<and> frac x = 0)"

text \<open>IEEE equality: a NaN equals nothing, the two zeros are equal, otherwise the bits decide.\<close>

definition f64_eq :: "float64 \<Rightarrow> float64 \<Rightarrow> bool" where
  "f64_eq x y = (\<not> is_nan x \<and> \<not> is_nan y \<and> (x = y \<or> (is_zero x \<and> is_zero y)))"

definition bits :: "float64 \<Rightarrow> 64 word" where
  "bits x = push_bit 63 (of_bool (sign x)) OR push_bit 52 (ucast (expo x)) OR ucast (frac x)"

text \<open>The eight bytes of one element in memory, least significant first.\<close>

definition to_bytes :: "float64 \<Rightarrow> 8 word list" where
  "to_bytes x = map (\<lambda>k. ucast (drop_bit (8 * k) (bits x))) [0..<8]"

text \<open>\<open>ndarray.tostring()\<close>: the raw bytes of the elements, in order.\<close>

definition tostring :: "float64 list \<Rightarrow> 8 word list" where
  "tostring xs = concat (map to_bytes xs)"

subsection \<open>Python numbers and their coercion to \<open>float64\<close>\<close>

text \<open>
  A scalar is a Python \<open>int\<close> (unbounded), a Python \<open>float\<close>, or a \<open>numpy.float64\<close>, which
  is what an element read from an array is. The two floats hold the same 64 bits and differ
  in how they compare with an int. The argument \<open>values\<close> of the constructors is
  dynamically typed: a bare scalar, or a sequence (list, tuple, one-dimensional array) of
  scalars. Other iterables (strings, generators, nested sequences) are not modelled.
\<close>

datatype num = PyInt int | PyFloat float64 | NpFloat64 float64

datatype arg = Scalar num | Seq "num list"

fun bit_length :: "nat \<Rightarrow> nat" where
  "bit_length n = (if n = 0 then 0 else Suc (bit_length (n div 2)))"

declare bit_length.simps [simp del]

text \<open>
  \<open>float(n)\<close> for an int: the nearest double, ties to even; \<open>None\<close> where Python raises
  \<open>OverflowError\<close>. The flag tells whether the double has exactly the value \<open>n\<close>.
\<close>

definition int_to_f64 :: "int \<Rightarrow> (float64 \<times> bool) option" where
  "int_to_f64 n =
     (let m = nat \<bar>n\<bar>; s = (n < 0) in
      if m = 0 then Some (F64 False 0 0, True)
      else
        let e = bit_length m - 1 in
        if e \<le> 52 then Some (F64 s (of_nat (e + 1023)) (of_nat (m * 2 ^ (52 - e) - 2 ^ 52)), True)
        else
          let sh = e - 52;
              q = m div 2 ^ sh;
              r = m mod 2 ^ sh;
              half = 2 ^ (sh - 1);
              q1 = (if r > half \<or> (r = half \<and> odd q) then q + 1 else q);
              e1 = (if q1 = 2 ^ 53 then e + 1 else e);
              q2 = (if q1 = 2 ^ 53 then 2 ^ 52 else q1)
          in if e1 \<ge> 1024 then None
             else Some (F64 s (of_nat (e1 + 1023)) (of_nat (q2 - 2 ^ 52)), r = 0))"

definition to_float64 :: "num \<Rightarrow> error + float64" where
  "to_float64 v =
     (case v of
        PyFloat x \<Rightarrow> Inr x
      | NpFloat64 x \<Rightarrow> Inr x
      | PyInt n \<Rightarrow> (case int_to_f64 n of None \<Rightarrow> Inl OverflowError | Some (x, _) \<Rightarrow> Inr x))"

text \<open>\<open>np.array(values, dtype=np.float64)\<close> on a sequence of scalars.\<close>

fun np_array_float64 :: "num list \<Rightarrow> error + float64 list" where
  "np_array_float64 [] = Inr []"
| "np_array_float64 (v # vs) =
     (case to_float64 v of
        Inl e \<Rightarrow> Inl e
      | Inr x \<Rightarrow> (case np_array_float64 vs of Inl e \<Rightarrow> Inl e | Inr xs \<Rightarrow> Inr (x # xs)))"

text \<open>
  \<open>n == y\<close> for an int and a Python \<open>float\<close>: the interpreter compares the exact values, so
  an int that no double represents equals no float.
\<close>

definition int_eq_float :: "int \<Rightarrow> float64 \<Rightarrow> bool" where
  "int_eq_float n y = (case int_to_f64 n of Some (x, True) \<Rightarrow> f64_eq x y | _ \<Rightarrow> False)"

text \<open>
  \<open>n == y\<close> for an int and a \<open>numpy.float64\<close>, in either order: numpy converts the int to a
  double and compares the two doubles. An int beyond the range of a double has no double to
  compare with; no value held by an object of this module is such an int, since the
  constructors convert every value they store.
\<close>

definition int_eq_float64 :: "int \<Rightarrow> float64 \<Rightarrow> bool" where
  "int_eq_float64 n y = (case int_to_f64 n of Some (x, _) \<Rightarrow> f64_eq x y | None \<Rightarrow> False)"

text \<open>\<open>a == b\<close> on two scalars. Two ints compare exactly, two floats of either kind by IEEE
  equality, an int and a float by the rule of the float's type.\<close>

definition num_eq :: "num \<Rightarrow> num \<Rightarrow> bool" where
  "num_eq a b =
     (case (a, b) of
        (PyInt m, PyInt n) \<Rightarrow> m = n
      | (PyInt n, PyFloat y) \<Rightarrow> int_eq_float n y
      | (PyFloat x, PyInt n) \<Rightarrow> int_eq_float n x
      | (PyInt n, NpFloat64 y) \<Rightarrow> int_eq_float64 n y
      | (NpFloat64 x, PyInt n) \<Rightarrow> int_eq_float64 n x
      | (PyFloat x, PyFloat y) \<Rightarrow> f64_eq x y
      | (PyFloat x, NpFloat64 y) \<Rightarrow> f64_eq x y
      | (NpFloat64 x, PyFloat y) \<Rightarrow> f64_eq x y
      | (NpFloat64 x, NpFloat64 y) \<Rightarrow> f64_eq x y)"

subsection \<open>Sequences and indexing\<close>

text \<open>\<open>isinstance(values, Iterable)\<close> on the modelled arguments.\<close>

definition isinstance_Iterable :: "arg \<Rightarrow> bool" where
  "isinstance_Iterable a = (case a of Scalar _ \<Rightarrow> False | Seq _ \<Rightarrow> True)"

text \<open>
  \<open>xs[i]\<close> with an integer index, on a list and on a one-dimensional array alike: a negative
  index counts from the end, an index outside the sequence raises \<open>IndexError\<close>.
\<close>

definition py_index :: "'x list \<Rightarrow> int \<Rightarrow> error + 'x" where
  "py_index xs i =
     (let n = int (length xs); j = (if i < 0 then i + n else i)
      in if 0 \<le> j \<and> j < n then Inr (xs ! nat j) else Inl IndexError)"

text \<open>
  \<open>np.concatenate([self.values, values])\<close>: the elements of the array followed by those of
  the sequence. The result is handed to the constructor, whose \<open>np.array(_, dtype=float64)\<close>
  performs the conversion of the appended scalars.
\<close>

definition np_concatenate :: "float64 list \<Rightarrow> num list \<Rightarrow> num list" where
  "np_concatenate xs vs = map NpFloat64 xs @ vs"

subsection \<open>Objects and the heap\<close>

text \<open>
  The fit parameter is an object of an external library: opaque but for its attribute
  \<open>name\<close>. The predicate \<open>is_valid_parameter\<close> of \<open>utils/fit/api_check.py\<close> is taken
  as an argument of the constructors.
\<close>

record parameter_obj =
  pname :: string

datatype cls = POIarray_cls | POI_cls

fun issubclass :: "cls \<Rightarrow> cls \<Rightarrow> bool" where
  "issubclass POI_cls POIarray_cls = True"
| "issubclass c d = (c = d)"

text \<open>
  The attributes \<open>parameter\<close>, \<open>name\<close>, \<open>_values\<close>, \<open>_ndim\<close>, \<open>_shape\<close> set by
  \<open>POIarray.__init__\<close>, and \<open>_value\<close>, which only \<open>POI.__init__\<close> sets.
\<close>

record 'a poi_obj =
  cls :: cls
  parameter :: "'a parameter_obj_scheme"
  name :: string
  attr_values :: "float64 list"
  attr_ndim :: nat
  attr_shape :: "nat list"
  attr_value :: "num option"

type_synonym ref = nat
type_synonym 'a heap = "'a poi_obj list"

text \<open>The right operand of a comparison: an instance of one of the two classes, or not.\<close>

datatype 'a pyval = Instance "'a poi_obj" | Foreign

text \<open>What \<open>__eq__\<close> returns: the constant \<open>NotImplemented\<close>, or a truth value.\<close>

datatype cmp = NotImplemented | Ret bool

definition new :: "'a heap \<Rightarrow> error + 'a poi_obj \<Rightarrow> (error + ref) \<times> 'a heap" where
  "new h r = (case r of Inl e \<Rightarrow> (Inl e, h) | Inr ob \<Rightarrow> (Inr (length h), h @ [ob]))"

subsection \<open>Class \<open>POIarray\<close>\<close>

text \<open>\<open>__init__\<close>; \<open>c\<close> is the class of the object being initialised.\<close>

definition POIarray_init ::
  "('a parameter_obj_scheme \<Rightarrow> bool) \<Rightarrow> cls \<Rightarrow> 'a parameter_obj_scheme \<Rightarrow> arg \<Rightarrow> error + 'a poi_obj"
where
  "POIarray_init is_valid_parameter c p vals =
     (if \<not> is_valid_parameter p then Inl ValueError
      else if \<not> isinstance_Iterable vals then Inl TypeError
      else
        (case vals of
           Scalar _ \<Rightarrow> Inl TypeError \<comment> \<open>a scalar is not iterable: excluded by the test above\<close>
         | Seq vs \<Rightarrow>
             (case np_array_float64 vs of
                Inl e \<Rightarrow> Inl e
              | Inr xs \<Rightarrow>
                  Inr \<lparr>cls = c, parameter = p, name = pname p, attr_values = xs,
                       attr_ndim = 1, attr_shape = [length vs], attr_value = None\<rparr>)))"

text \<open>The expression \<open>POIarray(parameter, values)\<close>.\<close>

definition POIarray_call ::
  "('a parameter_obj_scheme \<Rightarrow> bool) \<Rightarrow> 'a heap \<Rightarrow> 'a parameter_obj_scheme \<Rightarrow> arg
     \<Rightarrow> (error + ref) \<times> 'a heap"
where
  "POIarray_call is_valid_parameter h p vals = new h (POIarray_init is_valid_parameter POIarray_cls p vals)"

definition POIarray_values :: "'a poi_obj \<Rightarrow> float64 list" where
  "POIarray_values self = attr_values self"

definition POIarray_ndim :: "'a poi_obj \<Rightarrow> nat" where
  "POIarray_ndim self = attr_ndim self"

definition POIarray_shape :: "'a poi_obj \<Rightarrow> nat list" where
  "POIarray_shape self = attr_shape self"

definition POIarray_len :: "'a poi_obj \<Rightarrow> nat" where
  "POIarray_len self = length (POIarray_values self)"

definition POIarray_eq :: "'a poi_obj \<Rightarrow> 'a pyval \<Rightarrow> cmp" where
  "POIarray_eq self other =
     (case other of
        Foreign \<Rightarrow> NotImplemented
      | Instance ob \<Rightarrow>
          if POIarray_len self \<noteq> POIarray_len ob then Ret False
          else
            let values_equal = map2 f64_eq (POIarray_values self) (POIarray_values ob);
                name_equal = (name self = name ob)
            in Ret (list_all (\<lambda>b. b) values_equal \<and> name_equal))"

text \<open>\<open>__hash__\<close>; the builtin \<open>hash\<close> on a tuple of a string and a byte string is \<open>H\<close>.\<close>

definition POIarray_hash :: "(string \<times> 8 word list \<Rightarrow> 'h) \<Rightarrow> 'a poi_obj \<Rightarrow> 'h" where
  "POIarray_hash H self = H (name self, tostring (POIarray_values self))"

subsection \<open>Class \<open>POI\<close>\<close>

definition POI_init ::
  "('a parameter_obj_scheme \<Rightarrow> bool) \<Rightarrow> 'a parameter_obj_scheme \<Rightarrow> arg \<Rightarrow> error + 'a poi_obj"
where
  "POI_init is_valid_parameter p val =
     (case val of
        Seq _ \<Rightarrow> Inl TypeError
      | Scalar v \<Rightarrow>
          (case POIarray_init is_valid_parameter POI_cls p (Seq [v]) of
             Inl e \<Rightarrow> Inl e
           | Inr self \<Rightarrow> Inr (self\<lparr>attr_value := Some v\<rparr>)))"

text \<open>The expression \<open>POI(parameter, value)\<close>.\<close>

definition POI_call ::
  "('a parameter_obj_scheme \<Rightarrow> bool) \<Rightarrow> 'a heap \<Rightarrow> 'a parameter_obj_scheme \<Rightarrow> arg
     \<Rightarrow> (error + ref) \<times> 'a heap"
where
  "POI_call is_valid_parameter h p val = new h (POI_init is_valid_parameter p val)"

text \<open>The property \<open>value\<close>; an object without \<open>_value\<close> raises \<open>AttributeError\<close>.\<close>

definition POI_value :: "'a poi_obj \<Rightarrow> error + num" where
  "POI_value self = (case attr_value self of None \<Rightarrow> Inl AttributeError | Some v \<Rightarrow> Inr v)"

definition isinstance_POI :: "'a pyval \<Rightarrow> bool" where
  "isinstance_POI other = (case other of Foreign \<Rightarrow> False | Instance ob \<Rightarrow> issubclass (cls ob) POI_cls)"

definition POI_eq :: "'a poi_obj \<Rightarrow> 'a pyval \<Rightarrow> error + cmp" where
  "POI_eq self other =
     (if \<not> isinstance_POI other then Inr NotImplemented
      else
        (case other of
           Foreign \<Rightarrow> Inr NotImplemented
         | Instance ob \<Rightarrow>
             (case POI_value self of
                Inl e \<Rightarrow> Inl e
              | Inr v \<Rightarrow>
                  (case POI_value ob of
                     Inl e \<Rightarrow> Inl e
                   | Inr w \<Rightarrow>
                       let value_equal = num_eq v w; name_equal = (name self = name ob)
                       in Inr (Ret (value_equal \<and> name_equal))))))"

subsection \<open>The operators \<open>==\<close> and \<open>!=\<close>\<close>

text \<open>
  \<open>type(self).__eq__(self, other)\<close>: \<open>POI\<close> overrides the method of \<open>POIarray\<close>. Neither
  class defines \<open>__ne__\<close>: the inherited default inverts what \<open>__eq__\<close> returns and passes
  \<open>NotImplemented\<close> on.
\<close>

definition type_eq :: "'a poi_obj \<Rightarrow> 'a pyval \<Rightarrow> error + cmp" where
  "type_eq self other =
     (case cls self of POIarray_cls \<Rightarrow> Inr (POIarray_eq self other) | POI_cls \<Rightarrow> POI_eq self other)"

definition type_ne :: "'a poi_obj \<Rightarrow> 'a pyval \<Rightarrow> error + cmp" where
  "type_ne self other =
     (case type_eq self other of
        Inl e \<Rightarrow> Inl e
      | Inr NotImplemented \<Rightarrow> Inr NotImplemented
      | Inr (Ret b) \<Rightarrow> Inr (Ret (\<not> b)))"

text \<open>
  The interpreter's comparison of \<open>v\<close> with \<open>w\<close>: the method of the right operand is tried first
  when its class is a proper subclass of the left operand's, the other operand's method is
  tried when the first returns \<open>NotImplemented\<close>, and when both do the answer is the default
  \<open>dflt\<close> (identity for \<open>==\<close>, its negation for \<open>!=\<close>).
\<close>

definition do_richcompare ::
  "('a poi_obj \<Rightarrow> 'a pyval \<Rightarrow> error + cmp) \<Rightarrow> bool \<Rightarrow> 'a poi_obj \<Rightarrow> 'a poi_obj \<Rightarrow> error + bool"
where
  "do_richcompare meth dflt v w =
     (let first = (if cls w \<noteq> cls v \<and> issubclass (cls w) (cls v) then (w, v) else (v, w));
          second = (snd first, fst first)
      in case meth (fst first) (Instance (snd first)) of
           Inl e \<Rightarrow> Inl e
         | Inr (Ret b) \<Rightarrow> Inr b
         | Inr NotImplemented \<Rightarrow>
             (case meth (fst second) (Instance (snd second)) of
                Inl e \<Rightarrow> Inl e
              | Inr (Ret b) \<Rightarrow> Inr b
              | Inr NotImplemented \<Rightarrow> Inr dflt))"

definition eq_op :: "'a heap \<Rightarrow> ref \<Rightarrow> ref \<Rightarrow> error + bool" where
  "eq_op h a b = do_richcompare type_eq (a = b) (h ! a) (h ! b)"

definition ne_op :: "'a heap \<Rightarrow> ref \<Rightarrow> ref \<Rightarrow> error + bool" where
  "ne_op h a b = do_richcompare type_ne (a \<noteq> b) (h ! a) (h ! b)"

subsection \<open>Methods that build objects\<close>

text \<open>\<open>POIarray.__getitem__\<close>: the element is a \<open>numpy.float64\<close>, wrapped in a new \<open>POI\<close>.\<close>

definition POIarray_getitem ::
  "('a parameter_obj_scheme \<Rightarrow> bool) \<Rightarrow> 'a heap \<Rightarrow> ref \<Rightarrow> int \<Rightarrow> (error + ref) \<times> 'a heap"
where
  "POIarray_getitem is_valid_parameter h self i =
     (case py_index (POIarray_values (h ! self)) i of
        Inl e \<Rightarrow> (Inl e, h)
      | Inr x \<Rightarrow> POI_call is_valid_parameter h (parameter (h ! self)) (Scalar (NpFloat64 x)))"

text \<open>
  \<open>POIarray.append\<close>. The class \<open>POI\<close> does not define \<open>append\<close>, so this is also the method
  that \<open>poi.append(v)\<close> runs; the result is built by \<open>POIarray\<close> whatever the receiver's class.
\<close>

definition POIarray_append ::
  "('a parameter_obj_scheme \<Rightarrow> bool) \<Rightarrow> 'a heap \<Rightarrow> ref \<Rightarrow> arg \<Rightarrow> (error + ref) \<times> 'a heap"
where
  "POIarray_append is_valid_parameter h self vals =
     (let vs = (case vals of Scalar v \<Rightarrow> [v] | Seq vs \<Rightarrow> vs);
          vs = np_concatenate (POIarray_values (h ! self)) vs
      in POIarray_call is_valid_parameter h (parameter (h ! self)) (Seq vs))"

text \<open>The function \<open>asarray\<close>: \<open>POI.values\<close> is an array of \<open>float64\<close>.\<close>

definition asarray ::
  "('a parameter_obj_scheme \<Rightarrow> bool) \<Rightarrow> 'a heap \<Rightarrow> ref \<Rightarrow> (error + ref) \<times> 'a heap"
where
  "asarray is_valid_parameter h poi =
     POIarray_call is_valid_parameter h (parameter (h ! poi))
       (Seq (map NpFloat64 (POIarray_values (h ! poi))))"

subsection \<open>Example data\<close>

text \<open>A predicate that accepts every parameter, one that accepts none, a parameter
  named \<open>mu\<close>, the quiet NaN \<open>float('nan')\<close> and the two zeros.\<close>

definition valid_all :: "parameter_obj \<Rightarrow> bool" where
  "valid_all p = True"

definition valid_none :: "parameter_obj \<Rightarrow> bool" where
  "valid_none p = False"

definition mu :: parameter_obj where
  "mu = \<lparr>pname = ''mu''\<rparr>"

definition nan :: float64 where
  "nan = F64 False 2047 (2 ^ 51)"

definition pos_zero :: float64 where
  "pos_zero = F64 False 0 0"

definition neg_zero :: float64 where
  "neg_zero = F64 True 0 0"

text \<open>Heaps of the examples: \<open>POI(mu, 5)\<close> at reference 0, then \<open>POIarray(mu, [5])\<close> at
  reference 1, then \<open>POI(mu, 5.0)\<close> at reference 2.\<close>

definition heap_POI_5 :: "unit poi_obj list" where
  "heap_POI_5 = snd (POI_call valid_all [] mu (Scalar (PyInt 5)))"

definition heap_POIarray_5 :: "unit poi_obj list" where
  "heap_POIarray_5 = snd (POIarray_call valid_all heap_POI_5 mu (Seq [PyInt 5]))"

definition heap_POI_5f :: "unit poi_obj list" where
  "heap_POI_5f = snd (POI_call valid_all heap_POIarray_5 mu (Scalar (PyFloat (F64 False 1025 (2 ^ 50)))))"

text \<open>\<open>POIarray(mu, [0.0])\<close> at reference 0, then \<open>POIarray(mu, [-0.0])\<close> at reference 1.\<close>

definition heap_pos_zero :: "unit poi_obj list" where
  "heap_pos_zero = snd (POIarray_call valid_all [] mu (Seq [PyFloat pos_zero]))"

definition heap_neg_zero :: "unit poi_obj list" where
  "heap_neg_zero = snd (POIarray_call valid_all heap_pos_zero mu (Seq [PyFloat neg_zero]))"

text \<open>\<open>POIarray(mu, [float('nan')])\<close> at reference 0.\<close>

definition heap_nan_array :: "unit poi_obj list" where
  "heap_nan_array = snd (POIarray_call valid_all [] mu (Seq [PyFloat nan]))"

text \<open>\<open>POIarray(mu, [1, 2])\<close> at reference 0, then \<open>POIarray(mu, [2, 1])\<close> at reference 1.\<close>

definition heap_12 :: "unit poi_obj list" where
  "heap_12 = snd (POIarray_call valid_all [] mu (Seq [PyInt 1, PyInt 2]))"

definition heap_21 :: "unit poi_obj list" where
  "heap_21 = snd (POIarray_call valid_all heap_12 mu (Seq [PyInt 2, PyInt 1]))"

text \<open>\<open>a = POIarray(mu, [1, 2, 3])\<close> at reference 0, then \<open>a.append(4)\<close> at reference 1, then
  \<open>POIarray(mu, [1, 2, 3, 4])\<close> at reference 2.\<close>

definition heap_123 :: "unit poi_obj list" where
  "heap_123 = snd (POIarray_call valid_all [] mu (Seq [PyInt 1, PyInt 2, PyInt 3]))"

definition heap_123_4 :: "unit poi_obj list" where
  "heap_123_4 = snd (POIarray_append valid_all heap_123 0 (Scalar (PyInt 4)))"

definition heap_1234 :: "unit poi_obj list" where
  "heap_1234 = snd (POIarray_call valid_all heap_123_4 mu (Seq [PyInt 1, PyInt 2, PyInt 3, PyInt 4]))"

text \<open>\<open>a = POIarray(mu, [0, 1, 2, 3])\<close> at reference 0, then \<open>a[3]\<close> at reference 1, then
  \<open>POI(mu, 3)\<close> at reference 2.\<close>

definition heap_0123 :: "unit poi_obj list" where
  "heap_0123 = snd (POIarray_call valid_all [] mu (Seq [PyInt 0, PyInt 1, PyInt 2, PyInt 3]))"

definition heap_item_3 :: "unit poi_obj list" where
  "heap_item_3 = snd (POIarray_getitem valid_all heap_0123 0 3)"

definition heap_POI_3 :: "unit poi_obj list" where
  "heap_POI_3 = snd (POI_call valid_all heap_item_3 mu (Scalar (PyInt 3)))"

text \<open>After \<open>a = POIarray(mu, [float('nan')])\<close>: \<open>a[0]\<close> at reference 1, then
  \<open>POI(mu, float('nan'))\<close> at reference 2.\<close>

definition heap_nan_item :: "unit poi_obj list" where
  "heap_nan_item = snd (POIarray_getitem valid_all heap_nan_array 0 0)"

definition heap_nan_POI :: "unit poi_obj list" where
  "heap_nan_POI = snd (POI_call valid_all heap_nan_item mu (Scalar (PyFloat nan)))"

text \<open>\<open>poi = POI(mu, 7)\<close> at reference 0, then \<open>asarray(poi)\<close> at reference 1, then
  \<open>POIarray(mu, [7])\<close> at reference 2.\<close>

definition heap_POI_7 :: "unit poi_obj list" where
  "heap_POI_7 = snd (POI_call valid_all [] mu (Scalar (PyInt 7)))"

definition heap_asarray_7 :: "unit poi_obj list" where
  "heap_asarray_7 = snd (asarray valid_all heap_POI_7 0)"

definition heap_POIarray_7 :: "unit poi_obj list" where
  "heap_POIarray_7 = snd (POIarray_call valid_all heap_asarray_7 mu (Seq [PyInt 7]))"

text \<open>\<open>POIarray(mu, [1, 2.5])\<close> at reference 0.\<close>

definition heap_mixed :: "unit poi_obj list" where
  "heap_mixed = snd (POIarray_call valid_all [] mu (Seq [PyInt 1, PyFloat (F64 False 1024 (2 ^ 50))]))"

text \<open>\<open>POI(mu, float('nan'))\<close> at reference 0.\<close>

definition heap_POI_nan :: "unit poi_obj list" where
  "heap_POI_nan = snd (POI_call valid_all [] mu (Scalar (PyFloat nan)))"

text \<open>After \<open>poi = POI(mu, 5)\<close> at reference 0: \<open>poi.append(6)\<close> at reference 1.\<close>

definition heap_POI_5_append :: "unit poi_obj list" where
  "heap_POI_5_append = snd (POIarray_append valid_all heap_POI_5 0 (Scalar (PyInt 6)))"

text \<open>With \<open>n = 2**53 + 1\<close>, which no double represents: \<open>a = POIarray(mu, [n])\<close> at
  reference 0, then \<open>a[0]\<close> at reference 1, then \<open>POI(mu, n)\<close> at reference 2.\<close>

definition heap_big_array :: "unit poi_obj list" where
  "heap_big_array = snd (POIarray_call valid_all [] mu (Seq [PyInt 9007199254740993]))"

definition heap_big_item :: "unit poi_obj list" where
  "heap_big_item = snd (POIarray_getitem valid_all heap_big_array 0 0)"

definition heap_big_POI :: "unit poi_obj list" where
  "heap_big_POI = snd (POI_call valid_all heap_big_item mu (Scalar (PyInt 9007199254740993)))"

text \<open>\<open>POI(mu, 2**53 + 1)\<close> at reference 0.\<close>

definition heap_POI_big :: "unit poi_obj list" where
  "heap_POI_big = snd (POI_call valid_all [] mu (Scalar (PyInt 9007199254740993)))"

section \<open>Auxiliary facts\<close>

lemmas exec_defs =
  valid_all_def mu_def
  POI_call_def POIarray_call_def new_def POI_init_def POIarray_init_def isinstance_Iterable_def
  to_float64_def int_to_f64_def bit_length.simps Let_def
  eq_op_def do_richcompare_def type_eq_def POIarray_eq_def POI_eq_def
  isinstance_POI_def POI_value_def POIarray_len_def POIarray_values_def
  num_eq_def int_eq_float_def int_eq_float64_def f64_eq_def is_nan_def is_zero_def

lemma expo_below_max: "k < 2047 \<Longrightarrow> (of_nat k :: 11 word) \<noteq> 2047"
proof
  assume k: "k < 2047" and eq: "(of_nat k :: 11 word) = 2047"
  from eq have "unat (of_nat k :: 11 word) = unat (2047 :: 11 word)" by simp
  then have "k mod 2048 = 2047" by (simp add: unat_of_nat)
  with k show False by simp
qed

lemma not_nan_F64: "k < 2047 \<Longrightarrow> \<not> is_nan (F64 s (of_nat k) f)"
  by (simp add: is_nan_def expo_below_max)

lemma int_to_f64_shape:
  assumes "int_to_f64 n = Some (x, b)"
  shows "\<exists>s k f. x = F64 s (of_nat k) f \<and> k < 2047"
proof (cases "nat \<bar>n\<bar> = 0")
  case True
  with assms have "x = F64 False (of_nat 0) 0" by (simp add: int_to_f64_def)
  then show ?thesis by (metis zero_less_numeral)
next
  case nz: False
  define e where "e = bit_length (nat \<bar>n\<bar>) - 1"
  show ?thesis
  proof (cases "e \<le> 52")
    case True
    with nz assms have "\<exists>f. x = F64 (n < 0) (of_nat (e + 1023)) f"
      unfolding int_to_f64_def Let_def e_def by (simp only: if_False if_True option.inject prod.inject) blast
    moreover from True have "e + 1023 < 2047" by simp
    ultimately show ?thesis by blast
  next
    case False
    define e1 where "e1 = (if (if nat \<bar>n\<bar> mod 2 ^ (e - 52) > 2 ^ (e - 52 - 1) \<or> (nat \<bar>n\<bar> mod 2 ^ (e - 52) = 2 ^ (e - 52 - 1) \<and> odd (nat \<bar>n\<bar> div 2 ^ (e - 52))) then nat \<bar>n\<bar> div 2 ^ (e - 52) + 1 else nat \<bar>n\<bar> div 2 ^ (e - 52)) = 2 ^ 53 then e + 1 else e)"
    from nz False assms have "\<not> e1 \<ge> 1024 \<and> (\<exists>f. x = F64 (n < 0) (of_nat (e1 + 1023)) f)"
      unfolding int_to_f64_def Let_def e_def [symmetric] e1_def [symmetric]
      apply (simp only: if_False if_True)
      apply (cases "1024 \<le> e1")
       apply (simp_all only: if_False if_True option.inject prod.inject option.distinct)
      apply blast
      done
    moreover then have "e1 + 1023 < 2047" by simp
    ultimately show ?thesis by blast
  qed
qed

lemma int_to_f64_not_nan: "int_to_f64 n = Some (x, b) \<Longrightarrow> \<not> is_nan x"
  using int_to_f64_shape not_nan_F64 by blast

lemma f64_eq_refl: "f64_eq x x = (\<not> is_nan x)"
  by (simp add: f64_eq_def)

lemma f64_eq_sym: "f64_eq x y = f64_eq y x"
  by (auto simp: f64_eq_def)

lemma num_eq_coercion:
  assumes "to_float64 v = Inr x"
  shows "num_eq v (NpFloat64 x) = (\<not> is_nan x)" and "num_eq (NpFloat64 x) v = (\<not> is_nan x)"
  using assms
  by (auto simp: to_float64_def num_eq_def int_eq_float64_def f64_eq_refl
      split: num.splits option.splits)

lemma int_coercion_not_nan: "to_float64 (PyInt n) = Inr x \<Longrightarrow> \<not> is_nan x"
  by (auto simp: to_float64_def dest: int_to_f64_not_nan split: option.splits)

lemma np_array_float64_length: "np_array_float64 vs = Inr xs \<Longrightarrow> length xs = length vs"
  by (induction vs arbitrary: xs) (auto split: sum.splits)

lemma np_array_float64_nth:
  "np_array_float64 vs = Inr xs \<Longrightarrow> k < length vs \<Longrightarrow> to_float64 (vs ! k) = Inr (xs ! k)"
proof (induction vs arbitrary: xs k)
  case Nil
  then show ?case by simp
next
  case (Cons v vs)
  then show ?case by (cases k) (auto split: sum.splits)
qed

lemma np_array_float64_concat:
  "np_array_float64 (np_concatenate xs vs) =
     (case np_array_float64 vs of Inl e \<Rightarrow> Inl e | Inr ys \<Rightarrow> Inr (xs @ ys))"
  by (induction xs) (auto simp: np_concatenate_def to_float64_def split: sum.splits)

lemma all_map2_refl: "list_all (\<lambda>b. b) (map2 f64_eq xs xs) = (\<forall>x\<in>set xs. \<not> is_nan x)"
  by (induction xs) (auto simp: f64_eq_refl)

lemma map2_f64_eq_sym: "map2 f64_eq xs ys = map2 f64_eq ys xs"
proof (induction xs arbitrary: ys)
  case Nil
  then show ?case by simp
next
  case (Cons x xs)
  then show ?case by (cases ys) (auto simp: f64_eq_sym)
qed

text \<open>What a successful constructor call leaves in the heap.\<close>

lemma POIarray_init_Inr:
  "POIarray_init V c p vals = Inr ob \<Longrightarrow>
     \<exists>vs xs. vals = Seq vs \<and> V p \<and> np_array_float64 vs = Inr xs \<and>
       ob = \<lparr>cls = c, parameter = p, name = pname p, attr_values = xs,
             attr_ndim = 1, attr_shape = [length vs], attr_value = None\<rparr>"
  by (auto simp: POIarray_init_def split: if_splits arg.splits sum.splits)

lemma POIarray_init_ok:
  "V p \<Longrightarrow> np_array_float64 vs = Inr xs \<Longrightarrow>
     POIarray_init V c p (Seq vs) =
       Inr \<lparr>cls = c, parameter = p, name = pname p, attr_values = xs,
            attr_ndim = 1, attr_shape = [length vs], attr_value = None\<rparr>"
  by (simp add: POIarray_init_def isinstance_Iterable_def)

lemma POI_init_Inr:
  "POI_init V p val = Inr ob \<Longrightarrow>
     \<exists>v x. val = Scalar v \<and> V p \<and> to_float64 v = Inr x \<and>
       ob = \<lparr>cls = POI_cls, parameter = p, name = pname p, attr_values = [x],
             attr_ndim = 1, attr_shape = [1], attr_value = Some v\<rparr>"
  by (auto simp: POI_init_def dest!: POIarray_init_Inr split: arg.splits sum.splits)

lemma POI_init_ok:
  "V p \<Longrightarrow> to_float64 v = Inr x \<Longrightarrow>
     POI_init V p (Scalar v) =
       Inr \<lparr>cls = POI_cls, parameter = p, name = pname p, attr_values = [x],
            attr_ndim = 1, attr_shape = [1], attr_value = Some v\<rparr>"
  by (simp add: POI_init_def POIarray_init_def isinstance_Iterable_def)

lemma new_Inr: "new h r = (Inr a, h') \<Longrightarrow> \<exists>ob. r = Inr ob \<and> a = length h \<and> h' = h @ [ob]"
  by (auto simp: new_def split: sum.splits)

lemma POIarray_call_Inr:
  "POIarray_call V h p vals = (Inr a, h') \<Longrightarrow>
     \<exists>vs xs. vals = Seq vs \<and> V p \<and> np_array_float64 vs = Inr xs \<and> a = length h \<and>
       h' = h @ [\<lparr>cls = POIarray_cls, parameter = p, name = pname p, attr_values = xs,
                  attr_ndim = 1, attr_shape = [length vs], attr_value = None\<rparr>]"
  unfolding POIarray_call_def by (blast dest: new_Inr POIarray_init_Inr)

lemma POI_call_Inr:
  "POI_call V h p val = (Inr a, h') \<Longrightarrow>
     \<exists>v x. val = Scalar v \<and> V p \<and> to_float64 v = Inr x \<and> a = length h \<and>
       h' = h @ [\<lparr>cls = POI_cls, parameter = p, name = pname p, attr_values = [x],
                  attr_ndim = 1, attr_shape = [1], attr_value = Some v\<rparr>]"
  unfolding POI_call_def by (blast dest: new_Inr POI_init_Inr)

lemma POIarray_call_ok:
  "V p \<Longrightarrow> np_array_float64 vs = Inr xs \<Longrightarrow>
     POIarray_call V h p (Seq vs) =
       (Inr (length h),
        h @ [\<lparr>cls = POIarray_cls, parameter = p, name = pname p, attr_values = xs,
               attr_ndim = 1, attr_shape = [length vs], attr_value = None\<rparr>])"
  by (simp add: POIarray_call_def POIarray_init_ok new_def)

lemma POI_call_ok:
  "V p \<Longrightarrow> to_float64 v = Inr x \<Longrightarrow>
     POI_call V h p (Scalar v) =
       (Inr (length h),
        h @ [\<lparr>cls = POI_cls, parameter = p, name = pname p, attr_values = [x],
               attr_ndim = 1, attr_shape = [1], attr_value = Some v\<rparr>])"
  by (simp add: POI_call_def POI_init_ok new_def)

text \<open>The operators on the four combinations of classes.\<close>

lemma eq_op_arrays:
  "cls (h ! a) = POIarray_cls \<Longrightarrow>
     eq_op h a b =
       Inr (length (attr_values (h ! a)) = length (attr_values (h ! b)) \<and>
            list_all (\<lambda>b. b) (map2 f64_eq (attr_values (h ! a)) (attr_values (h ! b))) \<and>
            name (h ! a) = name (h ! b))"
  by (cases "cls (h ! b)")
     (auto simp: eq_op_def do_richcompare_def type_eq_def POIarray_eq_def POI_eq_def
        isinstance_POI_def POIarray_len_def POIarray_values_def Let_def)

lemma eq_op_POI_array:
  "cls (h ! a) = POI_cls \<Longrightarrow> cls (h ! b) = POIarray_cls \<Longrightarrow>
     eq_op h a b =
       Inr (length (attr_values (h ! b)) = length (attr_values (h ! a)) \<and>
            list_all (\<lambda>b. b) (map2 f64_eq (attr_values (h ! b)) (attr_values (h ! a))) \<and>
            name (h ! b) = name (h ! a))"
  by (auto simp: eq_op_def do_richcompare_def type_eq_def POIarray_eq_def POI_eq_def
        isinstance_POI_def POIarray_len_def POIarray_values_def Let_def)

lemma eq_op_POIs:
  "cls (h ! a) = POI_cls \<Longrightarrow> cls (h ! b) = POI_cls \<Longrightarrow>
   attr_value (h ! a) = Some v \<Longrightarrow> attr_value (h ! b) = Some w \<Longrightarrow>
     eq_op h a b = Inr (num_eq v w \<and> name (h ! a) = name (h ! b))"
  by (simp add: eq_op_def do_richcompare_def type_eq_def POI_eq_def isinstance_POI_def
        POI_value_def Let_def)

lemma ne_op_eq_op:
  "ne_op h a b = (case eq_op h a b of Inl e \<Rightarrow> Inl e | Inr r \<Rightarrow> Inr (\<not> r))"
  by (auto simp: ne_op_def eq_op_def do_richcompare_def type_ne_def Let_def
        split: sum.splits cmp.splits)

section \<open>Properties\<close>

text \<open>
  C1 (as the code has it). \<open>POI.__eq__\<close> returns \<open>NotImplemented\<close> for a plain
  \<open>POIarray\<close>, so the interpreter asks \<open>POIarray.__eq__\<close>, which accepts a \<open>POI\<close> and
  compares lengths, elements and names: \<open>POI(p, v) == POIarray(p, [v])\<close> is true in both
  directions, and \<open>!=\<close> false, unless the coercion of \<open>v\<close> is a NaN. Between two \<open>POI\<close>
  objects \<open>==\<close> holds exactly when the scalar values and the names are equal.
\<close>

theorem POI_eq_POIarray_of_same_value:
  assumes "POI_call V h p (Scalar v) = (Inr a, h1)"
      and "POIarray_call V h1 p (Seq [v]) = (Inr b, h2)"
      and "POI_call V h2 q (Scalar w) = (Inr c, h3)"
      and "to_float64 v = Inr x"
  shows "POI_eq (h2 ! a) (Instance (h2 ! b)) = Inr NotImplemented
       \<and> eq_op h2 a b = Inr (\<not> is_nan x) \<and> eq_op h2 b a = Inr (\<not> is_nan x)
       \<and> ne_op h2 a b = Inr (is_nan x) \<and> ne_op h2 b a = Inr (is_nan x)
       \<and> eq_op h3 a c = Inr (num_eq v w \<and> pname p = pname q)
       \<and> eq_op h3 c a = Inr (num_eq w v \<and> pname q = pname p)"
proof -
  from assms(1,4) have a: "a = length h"
    and h1: "h1 = h @ [\<lparr>cls = POI_cls, parameter = p, name = pname p, attr_values = [x],
               attr_ndim = 1, attr_shape = [1], attr_value = Some v\<rparr>]"
    by (auto dest!: POI_call_Inr)
  from assms(2,4) have b: "b = length h1"
    and h2: "h2 = h1 @ [\<lparr>cls = POIarray_cls, parameter = p, name = pname p, attr_values = [x],
               attr_ndim = 1, attr_shape = [1], attr_value = None\<rparr>]"
    by (auto dest!: POIarray_call_Inr split: sum.splits)
  from assms(3) obtain y where c: "c = length h2"
    and h3: "h3 = h2 @ [\<lparr>cls = POI_cls, parameter = q, name = pname q, attr_values = [y],
               attr_ndim = 1, attr_shape = [1], attr_value = Some w\<rparr>]"
    by (auto dest!: POI_call_Inr)
  have A: "h2 ! a = \<lparr>cls = POI_cls, parameter = p, name = pname p, attr_values = [x],
               attr_ndim = 1, attr_shape = [1], attr_value = Some v\<rparr>"
    and A3: "h3 ! a = \<lparr>cls = POI_cls, parameter = p, name = pname p, attr_values = [x],
               attr_ndim = 1, attr_shape = [1], attr_value = Some v\<rparr>"
    by (simp_all add: a h1 h2 h3 nth_append)
  have B: "h2 ! b = \<lparr>cls = POIarray_cls, parameter = p, name = pname p, attr_values = [x],
               attr_ndim = 1, attr_shape = [1], attr_value = None\<rparr>"
    by (simp add: b h2 nth_append)
  have C: "h3 ! c = \<lparr>cls = POI_cls, parameter = q, name = pname q, attr_values = [y],
               attr_ndim = 1, attr_shape = [1], attr_value = Some w\<rparr>"
    by (simp add: c h3 nth_append)
  have 1: "POI_eq (h2 ! a) (Instance (h2 ! b)) = Inr NotImplemented"
    by (simp add: A B POI_eq_def isinstance_POI_def)
  have 2: "eq_op h2 a b = Inr (\<not> is_nan x)"
    by (simp add: eq_op_POI_array A B f64_eq_refl)
  have 3: "eq_op h2 b a = Inr (\<not> is_nan x)"
    by (simp add: eq_op_arrays A B f64_eq_refl)
  have 4: "eq_op h3 a c = Inr (num_eq v w \<and> pname p = pname q)"
    by (simp add: eq_op_POIs [where v = v and w = w] A3 C)
  have 5: "eq_op h3 c a = Inr (num_eq w v \<and> pname q = pname p)"
    by (simp add: eq_op_POIs [where v = w and w = v] A3 C)
  from 1 2 3 4 5 show ?thesis by (simp add: ne_op_eq_op)
qed

text \<open>The theorem at \<open>POI(mu, 5)\<close>, \<open>POIarray(mu, [5])\<close> and \<open>POI(mu, 5.0)\<close>.\<close>

theorem POI_eq_POIarray_of_same_value_witness:
  "POI_call valid_all [] mu (Scalar (PyInt 5)) = (Inr 0, heap_POI_5)
   \<and> POIarray_call valid_all heap_POI_5 mu (Seq [PyInt 5]) = (Inr 1, heap_POIarray_5)
   \<and> POI_call valid_all heap_POIarray_5 mu (Scalar (PyFloat (F64 False 1025 (2 ^ 50)))) = (Inr 2, heap_POI_5f)
   \<and> to_float64 (PyInt 5) = Inr (F64 False 1025 (2 ^ 50))
   \<and> POI_eq (heap_POIarray_5 ! 0) (Instance (heap_POIarray_5 ! 1)) = Inr NotImplemented
   \<and> eq_op heap_POIarray_5 0 1 = Inr True \<and> eq_op heap_POIarray_5 1 0 = Inr True
   \<and> ne_op heap_POIarray_5 0 1 = Inr False \<and> ne_op heap_POIarray_5 1 0 = Inr False
   \<and> eq_op heap_POI_5f 0 2 = Inr True \<and> eq_op heap_POI_5f 2 0 = Inr True"
  using POI_eq_POIarray_of_same_value [of valid_all "[]" mu "PyInt 5" 0 heap_POI_5 1 heap_POIarray_5
      mu "PyFloat (F64 False 1025 (2 ^ 50))" 2 heap_POI_5f "F64 False 1025 (2 ^ 50)"]
  by (simp add: heap_POI_5_def heap_POIarray_5_def heap_POI_5f_def exec_defs ne_op_def type_ne_def)

text \<open>
  C1 as stated fails: \<open>POI(mu, 5)\<close> and \<open>POIarray(mu, [5])\<close> compare equal with \<open>==\<close> and
  not unequal with \<open>!=\<close>, whichever operand comes first.
\<close>

theorem POI_ne_POIarray_counterexample:
  "POI_call valid_all [] mu (Scalar (PyInt 5)) = (Inr 0, heap_POI_5)
   \<and> POIarray_call valid_all heap_POI_5 mu (Seq [PyInt 5]) = (Inr 1, heap_POIarray_5)
   \<and> eq_op heap_POIarray_5 0 1 = Inr True \<and> eq_op heap_POIarray_5 1 0 = Inr True
   \<and> ne_op heap_POIarray_5 0 1 = Inr False \<and> ne_op heap_POIarray_5 1 0 = Inr False"
  by (simp add: heap_POI_5_def heap_POIarray_5_def exec_defs ne_op_def type_ne_def)

text \<open>
  C2. \<open>POIarray(mu, [0.0])\<close> and \<open>POIarray(mu, [-0.0])\<close> are equal under \<open>==\<close>, since
  \<open>0.0 == -0.0\<close>, while the byte strings handed to \<open>hash\<close> differ in the sign byte: the two
  hashes agree only where the builtin hash collides.
\<close>

theorem POIarray_hash_signed_zero:
  "POIarray_call valid_all [] mu (Seq [PyFloat pos_zero]) = (Inr 0, heap_pos_zero)
   \<and> POIarray_call valid_all heap_pos_zero mu (Seq [PyFloat neg_zero]) = (Inr 1, heap_neg_zero)
   \<and> eq_op heap_neg_zero 0 1 = Inr True \<and> eq_op heap_neg_zero 1 0 = Inr True
   \<and> POIarray_hash id (heap_neg_zero ! 0) = (''mu'', [0, 0, 0, 0, 0, 0, 0, 0])
   \<and> POIarray_hash id (heap_neg_zero ! 1) = (''mu'', [0, 0, 0, 0, 0, 0, 0, 128])
   \<and> POIarray_hash id (heap_neg_zero ! 0) \<noteq> POIarray_hash id (heap_neg_zero ! 1)"
  by (simp add: heap_pos_zero_def heap_neg_zero_def pos_zero_def neg_zero_def exec_defs
        POIarray_hash_def tostring_def to_bytes_def bits_def upt_rec)

text \<open>
  C3 (as the code has it). For objects of class \<open>POIarray\<close>, \<open>a == a\<close> is true exactly when no
  element of \<open>a\<close> is a NaN; \<open>a == b\<close> and \<open>b == a\<close> agree; and \<open>POIarray(p, [1, 2])\<close> is not
  equal to \<open>POIarray(p, [2, 1])\<close>.
\<close>

theorem POIarray_eq_refl_sym_order:
  assumes "cls (h ! a) = POIarray_cls" and "cls (h ! b) = POIarray_cls"
      and "POIarray_call V h0 p (Seq [PyInt 1, PyInt 2]) = (Inr c, h1)"
      and "POIarray_call V h1 p (Seq [PyInt 2, PyInt 1]) = (Inr d, h2)"
  shows "eq_op h a a = Inr (\<forall>x\<in>set (POIarray_values (h ! a)). \<not> is_nan x)
       \<and> eq_op h a b = eq_op h b a
       \<and> eq_op h2 c d = Inr False \<and> ne_op h2 c d = Inr True"
proof -
  have refl: "eq_op h a a = Inr (\<forall>x\<in>set (POIarray_values (h ! a)). \<not> is_nan x)"
    using assms(1) by (simp add: eq_op_arrays all_map2_refl POIarray_values_def)
  have sym: "eq_op h a b = eq_op h b a"
    using assms(1,2) by (auto simp: eq_op_arrays map2_f64_eq_sym [of "attr_values (h ! a)"])
  have one: "np_array_float64 [PyInt 1, PyInt 2] = Inr [F64 False 1023 0, F64 False 1024 0]"
    and two: "np_array_float64 [PyInt 2, PyInt 1] = Inr [F64 False 1024 0, F64 False 1023 0]"
    by (simp_all add: to_float64_def int_to_f64_def bit_length.simps Let_def)
  from assms(3) one have c: "c = length h0"
    and h1: "h1 = h0 @ [\<lparr>cls = POIarray_cls, parameter = p, name = pname p,
               attr_values = [F64 False 1023 0, F64 False 1024 0],
               attr_ndim = 1, attr_shape = [2], attr_value = None\<rparr>]"
    by (auto dest!: POIarray_call_Inr)
  from assms(4) two have d: "d = length h1"
    and h2: "h2 = h1 @ [\<lparr>cls = POIarray_cls, parameter = p, name = pname p,
               attr_values = [F64 False 1024 0, F64 False 1023 0],
               attr_ndim = 1, attr_shape = [2], attr_value = None\<rparr>]"
    by (auto dest!: POIarray_call_Inr)
  have C: "h2 ! c = \<lparr>cls = POIarray_cls, parameter = p, name = pname p,
               attr_values = [F64 False 1023 0, F64 False 1024 0],
               attr_ndim = 1, attr_shape = [2], attr_value = None\<rparr>"
    by (simp add: c h1 h2 nth_append)
  have D: "h2 ! d = \<lparr>cls = POIarray_cls, parameter = p, name = pname p,
               attr_values = [F64 False 1024 0, F64 False 1023 0],
               attr_ndim = 1, attr_shape = [2], attr_value = None\<rparr>"
    by (simp add: d h2 nth_append)
  have ord: "eq_op h2 c d = Inr False"
    by (simp add: eq_op_arrays C D f64_eq_def is_zero_def is_nan_def)
  from refl sym ord show ?thesis by (simp add: ne_op_eq_op)
qed

text \<open>The theorem at \<open>POIarray(mu, [1, 2])\<close> and \<open>POIarray(mu, [2, 1])\<close>.\<close>

theorem POIarray_eq_refl_sym_order_witness:
  "cls (heap_21 ! 0) = POIarray_cls \<and> cls (heap_21 ! 1) = POIarray_cls
   \<and> POIarray_call valid_all [] mu (Seq [PyInt 1, PyInt 2]) = (Inr 0, heap_12)
   \<and> POIarray_call valid_all heap_12 mu (Seq [PyInt 2, PyInt 1]) = (Inr 1, heap_21)
   \<and> eq_op heap_21 0 0 = Inr True
   \<and> eq_op heap_21 0 1 = eq_op heap_21 1 0
   \<and> eq_op heap_21 0 1 = Inr False \<and> ne_op heap_21 0 1 = Inr True"
  using POIarray_eq_refl_sym_order [of heap_21 0 1 valid_all "[]" mu 0 heap_12 1 heap_21]
  by (simp add: heap_12_def heap_21_def exec_defs ne_op_def type_ne_def)

text \<open>
  C3 as stated fails on reflexivity: \<open>a = POIarray(mu, [float('nan')])\<close> is not equal to
  itself, since \<open>nan == nan\<close> is false for the element.
\<close>

theorem POIarray_eq_refl_counterexample:
  "POIarray_call valid_all [] mu (Seq [PyFloat nan]) = (Inr 0, heap_nan_array)
   \<and> eq_op heap_nan_array 0 0 = Inr False \<and> ne_op heap_nan_array 0 0 = Inr True"
  by (simp add: heap_nan_array_def nan_def exec_defs ne_op_def type_ne_def)

text \<open>
  C4 (as the code has it). With a parameter that \<open>is_valid_parameter\<close> rejects, \<open>POIarray\<close>
  raises \<open>ValueError\<close> whatever the values, and \<open>POI\<close> raises \<open>ValueError\<close> for every scalar
  value; for a sequence \<open>POI\<close> raises \<open>TypeError\<close>, its first check. No object is created.
\<close>

theorem invalid_parameter_rejected:
  assumes "\<not> V p"
  shows "POIarray_call V h p vals = (Inl ValueError, h)
       \<and> POI_call V h p (Scalar v) = (Inl ValueError, h)
       \<and> POI_call V h p (Seq vs) = (Inl TypeError, h)"
  using assms by (simp add: POIarray_call_def POI_call_def POIarray_init_def POI_init_def new_def)

theorem invalid_parameter_rejected_witness:
  "\<not> valid_none mu
   \<and> POIarray_call valid_none heap_12 mu (Scalar (PyInt 3)) = (Inl ValueError, heap_12)
   \<and> POI_call valid_none heap_12 mu (Scalar (PyInt 3)) = (Inl ValueError, heap_12)
   \<and> POI_call valid_none heap_12 mu (Seq [PyInt 1, PyInt 2]) = (Inl TypeError, heap_12)"
  using invalid_parameter_rejected [of valid_none mu heap_12 "Scalar (PyInt 3)" "PyInt 3" "[PyInt 1, PyInt 2]"]
  by (simp add: valid_none_def)

text \<open>
  C4 as stated fails for \<open>POI\<close>: with the rejected parameter and the values \<open>[1, 2]\<close> the
  error is \<open>TypeError\<close>, not the invalid-parameter \<open>ValueError\<close>.
\<close>

theorem invalid_parameter_counterexample:
  "\<not> valid_none mu
   \<and> POI_call valid_none [] mu (Seq [PyInt 1, PyInt 2]) = (Inl TypeError, [])
   \<and> POI_call valid_none [] mu (Seq [PyInt 1, PyInt 2]) \<noteq> (Inl ValueError, [])"
  by (simp add: valid_none_def POI_call_def POI_init_def new_def)

text \<open>
  C5. \<open>a.append(values)\<close>, for a receiver whose parameter is valid and values that convert
  to \<open>float64\<close>, allocates one new object of class \<open>POIarray\<close> with the receiver's parameter
  and the receiver's values followed by the converted values, in order; every object
  already in the heap, the receiver among them, is left as it was.
\<close>

theorem POIarray_append_new_object:
  assumes "a < length h" and "V (parameter (h ! a))"
      and "np_array_float64 (case vals of Scalar v \<Rightarrow> [v] | Seq vs \<Rightarrow> vs) = Inr ys"
  shows "\<exists>ob. POIarray_append V h a vals = (Inr (length h), h @ [ob])
           \<and> cls ob = POIarray_cls \<and> parameter ob = parameter (h ! a)
           \<and> POIarray_values ob = POIarray_values (h ! a) @ ys
           \<and> POIarray_len ob = POIarray_len (h ! a) + length ys
           \<and> (\<forall>r<length h. (h @ [ob]) ! r = h ! r)"
  using assms(2,3)
  by (simp add: POIarray_append_def Let_def POIarray_call_ok np_array_float64_concat
        POIarray_values_def POIarray_len_def nth_append)

text \<open>The theorem at \<open>POIarray(mu, [1, 2, 3]).append(4)\<close>, which equals
  \<open>POIarray(mu, [1, 2, 3, 4])\<close> and leaves the receiver with its three values.\<close>

theorem POIarray_append_new_object_witness:
  "(0::nat) < length heap_123 \<and> valid_all (parameter (heap_123 ! 0))
   \<and> np_array_float64 (case Scalar (PyInt 4) of Scalar v \<Rightarrow> [v] | Seq vs \<Rightarrow> vs) = Inr [F64 False 1025 0]
   \<and> POIarray_append valid_all heap_123 0 (Scalar (PyInt 4)) = (Inr 1, heap_123_4)
   \<and> cls (heap_123_4 ! 1) = POIarray_cls \<and> parameter (heap_123_4 ! 1) = mu
   \<and> POIarray_values (heap_123_4 ! 1) = POIarray_values (heap_123 ! 0) @ [F64 False 1025 0]
   \<and> POIarray_len (heap_123_4 ! 1) = 4
   \<and> heap_123_4 ! 0 = heap_123 ! 0 \<and> POIarray_len (heap_123_4 ! 0) = 3
   \<and> POIarray_call valid_all heap_123_4 mu (Seq [PyInt 1, PyInt 2, PyInt 3, PyInt 4]) = (Inr 2, heap_1234)
   \<and> eq_op heap_1234 1 2 = Inr True \<and> eq_op heap_1234 0 1 = Inr False"
  using POIarray_append_new_object [of 0 heap_123 valid_all "Scalar (PyInt 4)" "[F64 False 1025 0]"]
  by (simp add: heap_123_def heap_123_4_def heap_1234_def exec_defs POIarray_append_def
        np_concatenate_def)

lemma py_index_error: "py_index xs i = Inl e \<Longrightarrow> e = IndexError"
  by (auto simp: py_index_def Let_def split: if_splits)

lemma py_index_coerced:
  assumes "np_array_float64 vs = Inr xs"
  shows "py_index xs i = (case py_index vs i of Inl e \<Rightarrow> Inl e | Inr v \<Rightarrow> to_float64 v)"
proof -
  from assms have len: "length xs = length vs" by (rule np_array_float64_length)
  define j where "j = (if i < 0 then i + int (length vs) else i)"
  have px: "py_index xs i =
      (if 0 \<le> j \<and> j < int (length vs) then Inr (xs ! nat j) else Inl IndexError)"
    by (simp add: py_index_def Let_def len j_def)
  have pv: "py_index vs i =
      (if 0 \<le> j \<and> j < int (length vs) then Inr (vs ! nat j) else Inl IndexError)"
    by (simp add: py_index_def Let_def j_def)
  show ?thesis
  proof (cases "0 \<le> j \<and> j < int (length vs)")
    case True
    then have "nat j < length vs" by (simp add: nat_less_iff)
    with assms have "to_float64 (vs ! nat j) = Inr (xs ! nat j)" by (rule np_array_float64_nth)
    with True show ?thesis by (simp add: px pv)
  next
    case False
    then show ?thesis by (auto simp: px pv)
  qed
qed

text \<open>
  C6 (as the code has it). For \<open>a = POIarray(p, values)\<close>: an index outside the sequence
  raises \<open>IndexError\<close> and creates nothing; an index \<open>i\<close> in range returns a new \<open>POI\<close> that
  wraps \<open>p\<close> and holds, as a \<open>numpy.float64\<close>, the conversion \<open>x\<close> of \<open>values[i]\<close>. That
  object and \<open>POI(p, values[i])\<close> are equal, in either order, exactly when \<open>x\<close> is not a
  NaN; the conversion of an int never is one.
\<close>

theorem POIarray_getitem_POI:
  assumes "POIarray_call V h p (Seq vs) = (Inr a, h1)"
  shows "case py_index vs i of
           Inl e \<Rightarrow> POIarray_getitem V h1 a i = (Inl IndexError, h1)
         | Inr v \<Rightarrow>
             (\<exists>x g. to_float64 v = Inr x
                \<and> POIarray_getitem V h1 a i = (Inr (length h1), h1 @ [g])
                \<and> cls g = POI_cls \<and> parameter g = p \<and> POI_value g = Inr (NpFloat64 x)
                \<and> (\<forall>n. v = PyInt n \<longrightarrow> \<not> is_nan x)
                \<and> (\<exists>h3. POI_call V (h1 @ [g]) p (Scalar v) = (Inr (Suc (length h1)), h3)
                      \<and> eq_op h3 (length h1) (Suc (length h1)) = Inr (\<not> is_nan x)
                      \<and> eq_op h3 (Suc (length h1)) (length h1) = Inr (\<not> is_nan x)))"
proof -
  from assms obtain xs where V: "V p" and xs: "np_array_float64 vs = Inr xs"
    and a: "a = length h"
    and h1: "h1 = h @ [\<lparr>cls = POIarray_cls, parameter = p, name = pname p, attr_values = xs,
               attr_ndim = 1, attr_shape = [length vs], attr_value = None\<rparr>]"
    by (auto dest!: POIarray_call_Inr)
  have A: "h1 ! a = \<lparr>cls = POIarray_cls, parameter = p, name = pname p, attr_values = xs,
               attr_ndim = 1, attr_shape = [length vs], attr_value = None\<rparr>"
    by (simp add: a h1)
  show ?thesis
  proof (cases "py_index vs i")
    case (Inl e)
    with xs have "py_index xs i = Inl e" by (simp add: py_index_coerced)
    moreover from Inl have "e = IndexError" by (rule py_index_error)
    ultimately show ?thesis using Inl by (simp add: POIarray_getitem_def POIarray_values_def A)
  next
    case (Inr v)
    with xs have ix: "py_index xs i = to_float64 v" by (simp add: py_index_coerced)
    from Inr xs obtain x where x: "to_float64 v = Inr x"
    proof -
      define j where "j = (if i < 0 then i + int (length vs) else i)"
      from Inr have r: "0 \<le> j \<and> j < int (length vs)" and v: "v = vs ! nat j"
        by (auto simp: py_index_def Let_def j_def split: if_splits)
      then have "nat j < length vs" by (simp add: nat_less_iff)
      with xs have "to_float64 (vs ! nat j) = Inr (xs ! nat j)" by (rule np_array_float64_nth)
      with v that show ?thesis by simp
    qed
    define g :: "'a poi_obj" where
      "g = \<lparr>cls = POI_cls, parameter = p, name = pname p, attr_values = [x],
             attr_ndim = 1, attr_shape = [1], attr_value = Some (NpFloat64 x)\<rparr>"
    define q :: "'a poi_obj" where
      "q = \<lparr>cls = POI_cls, parameter = p, name = pname p, attr_values = [x],
             attr_ndim = 1, attr_shape = [1], attr_value = Some v\<rparr>"
    have fx: "to_float64 (NpFloat64 x) = Inr x" by (simp add: to_float64_def)
    have get: "POIarray_getitem V h1 a i = (Inr (length h1), h1 @ [g])"
      using POI_call_ok [of V p "NpFloat64 x" x h1] V fx
      by (simp add: POIarray_getitem_def POIarray_values_def A ix x g_def)
    define H where "H = h1 @ [g, q]"
    have mk: "POI_call V (h1 @ [g]) p (Scalar v) = (Inr (Suc (length h1)), H)"
      using POI_call_ok [of V p v x "h1 @ [g]"] V x by (simp add: q_def H_def)
    have G: "H ! length h1 = g" and Q: "H ! Suc (length h1) = q"
      by (simp_all add: H_def nth_append)
    have cmp: "eq_op H (length h1) (Suc (length h1)) = Inr (\<not> is_nan x)"
      using eq_op_POIs [of H "length h1" "Suc (length h1)" "NpFloat64 x" v]
      unfolding G Q by (simp add: g_def q_def num_eq_coercion [OF x])
    have rev: "eq_op H (Suc (length h1)) (length h1) = Inr (\<not> is_nan x)"
      using eq_op_POIs [of H "Suc (length h1)" "length h1" v "NpFloat64 x"]
      unfolding G Q by (simp add: g_def q_def num_eq_coercion [OF x])
    have int: "\<forall>n. v = PyInt n \<longrightarrow> \<not> is_nan x"
      using x by (auto dest: int_coercion_not_nan)
    have props: "cls g = POI_cls \<and> parameter g = p \<and> POI_value g = Inr (NpFloat64 x)"
      by (simp add: g_def POI_value_def)
    from x get mk cmp rev int props show ?thesis
      unfolding Inr by auto
  qed
qed

text \<open>The theorem at \<open>a = POIarray(mu, [0, 1, 2, 3])\<close>: \<open>a[3] == POI(mu, 3)\<close>, and \<open>a[4]\<close>
  raises \<open>IndexError\<close>; and at \<open>b = POIarray(mu, [2**53 + 1])\<close>: \<open>b[0]\<close> holds \<open>2.0**53\<close> and
  \<open>b[0] == POI(mu, 2**53 + 1)\<close>.\<close>

theorem POIarray_getitem_POI_witness:
  "POIarray_call valid_all [] mu (Seq [PyInt 0, PyInt 1, PyInt 2, PyInt 3]) = (Inr 0, heap_0123)
   \<and> py_index [PyInt 0, PyInt 1, PyInt 2, PyInt 3] 3 = Inr (PyInt 3)
   \<and> POIarray_getitem valid_all heap_0123 0 3 = (Inr 1, heap_item_3)
   \<and> cls (heap_item_3 ! 1) = POI_cls \<and> parameter (heap_item_3 ! 1) = mu
   \<and> POI_value (heap_item_3 ! 1) = Inr (NpFloat64 (F64 False 1024 (2 ^ 51)))
   \<and> \<not> is_nan (F64 False 1024 (2 ^ 51))
   \<and> POI_call valid_all heap_item_3 mu (Scalar (PyInt 3)) = (Inr 2, heap_POI_3)
   \<and> eq_op heap_POI_3 1 2 = Inr True \<and> eq_op heap_POI_3 2 1 = Inr True
   \<and> py_index [PyInt 0, PyInt 1, PyInt 2, PyInt 3] 4 = Inl IndexError
   \<and> POIarray_getitem valid_all heap_0123 0 4 = (Inl IndexError, heap_0123)
   \<and> POIarray_call valid_all [] mu (Seq [PyInt 9007199254740993]) = (Inr 0, heap_big_array)
   \<and> POIarray_getitem valid_all heap_big_array 0 0 = (Inr 1, heap_big_item)
   \<and> POI_value (heap_big_item ! 1) = Inr (NpFloat64 (F64 False 1076 0))
   \<and> POI_call valid_all heap_big_item mu (Scalar (PyInt 9007199254740993)) = (Inr 2, heap_big_POI)
   \<and> eq_op heap_big_POI 1 2 = Inr True \<and> eq_op heap_big_POI 2 1 = Inr True"
  using POIarray_getitem_POI [of valid_all "[]" mu "[PyInt 0, PyInt 1, PyInt 2, PyInt 3]" 0 heap_0123 3]
    POIarray_getitem_POI [of valid_all "[]" mu "[PyInt 0, PyInt 1, PyInt 2, PyInt 3]" 0 heap_0123 4]
    POIarray_getitem_POI [of valid_all "[]" mu "[PyInt 9007199254740993]" 0 heap_big_array 0]
  by (simp add: heap_0123_def heap_item_3_def heap_POI_3_def heap_big_array_def heap_big_item_def
        heap_big_POI_def exec_defs POIarray_getitem_def py_index_def)

text \<open>
  C6 as stated fails at a NaN: for \<open>a = POIarray(mu, [float('nan')])\<close> the index 0 is in
  range, and \<open>a[0] == POI(mu, float('nan'))\<close> is false.
\<close>

theorem POIarray_getitem_counterexample:
  "POIarray_call valid_all [] mu (Seq [PyFloat nan]) = (Inr 0, heap_nan_array)
   \<and> py_index [PyFloat nan] 0 = Inr (PyFloat nan)
   \<and> POIarray_getitem valid_all heap_nan_array 0 0 = (Inr 1, heap_nan_item)
   \<and> POI_call valid_all heap_nan_item mu (Scalar (PyFloat nan)) = (Inr 2, heap_nan_POI)
   \<and> eq_op heap_nan_POI 1 2 = Inr False \<and> ne_op heap_nan_POI 1 2 = Inr True"
  by (simp add: heap_nan_array_def heap_nan_item_def heap_nan_POI_def nan_def exec_defs
        POIarray_getitem_def py_index_def ne_op_def type_ne_def)

text \<open>
  C7. For \<open>poi = POI(p, v)\<close>, \<open>asarray(poi)\<close> allocates one new object of class \<open>POIarray\<close>
  with the parameter of \<open>poi\<close> and the single value that \<open>poi\<close> stores, the \<open>float64\<close>
  conversion \<open>x\<close> of \<open>poi.value\<close>; every object already in the heap, \<open>poi\<close> among them, is
  left as it was. Compared with \<open>POIarray(p, [v])\<close> the result is equal unless \<open>x\<close> is a NaN.
\<close>

theorem asarray_new_POIarray:
  assumes "POI_call V h p (Scalar v) = (Inr a, h1)"
  shows "\<exists>x ob. to_float64 v = Inr x \<and> POI_value (h1 ! a) = Inr v
           \<and> asarray V h1 a = (Inr (length h1), h1 @ [ob])
           \<and> cls ob = POIarray_cls \<and> parameter ob = parameter (h1 ! a) \<and> parameter ob = p
           \<and> POIarray_values ob = [x] \<and> POIarray_values ob = POIarray_values (h1 ! a)
           \<and> (\<forall>r<length h1. (h1 @ [ob]) ! r = h1 ! r)
           \<and> (\<exists>h3. POIarray_call V (h1 @ [ob]) p (Seq [v]) = (Inr (Suc (length h1)), h3)
                 \<and> eq_op h3 (length h1) (Suc (length h1)) = Inr (\<not> is_nan x))"
proof -
  from assms obtain x where V: "V p" and x: "to_float64 v = Inr x" and a: "a = length h"
    and h1: "h1 = h @ [\<lparr>cls = POI_cls, parameter = p, name = pname p, attr_values = [x],
               attr_ndim = 1, attr_shape = [1], attr_value = Some v\<rparr>]"
    by (auto dest!: POI_call_Inr)
  have A: "h1 ! a = \<lparr>cls = POI_cls, parameter = p, name = pname p, attr_values = [x],
               attr_ndim = 1, attr_shape = [1], attr_value = Some v\<rparr>"
    by (simp add: a h1)
  define ob :: "'a poi_obj" where
    "ob = \<lparr>cls = POIarray_cls, parameter = p, name = pname p, attr_values = [x],
            attr_ndim = 1, attr_shape = [1], attr_value = None\<rparr>"
  define H where "H = h1 @ [ob, ob]"
  have fx: "np_array_float64 [NpFloat64 x] = Inr [x]" by (simp add: to_float64_def)
  have vx: "np_array_float64 [v] = Inr [x]" by (simp add: x)
  have as: "asarray V h1 a = (Inr (length h1), h1 @ [ob])"
    using POIarray_call_ok [of V p "[NpFloat64 x]" "[x]" h1] V fx
    by (simp add: asarray_def POIarray_values_def A ob_def)
  have mk: "POIarray_call V (h1 @ [ob]) p (Seq [v]) = (Inr (Suc (length h1)), H)"
    using POIarray_call_ok [of V p "[v]" "[x]" "h1 @ [ob]"] V vx by (simp add: ob_def H_def)
  have G: "H ! length h1 = ob" and Q: "H ! Suc (length h1) = ob"
    by (simp_all add: H_def nth_append)
  have cmp: "eq_op H (length h1) (Suc (length h1)) = Inr (\<not> is_nan x)"
    using eq_op_arrays [of H "length h1" "Suc (length h1)"]
    unfolding G Q by (simp add: ob_def f64_eq_refl)
  have props: "POI_value (h1 ! a) = Inr v \<and> cls ob = POIarray_cls
      \<and> parameter ob = parameter (h1 ! a) \<and> parameter ob = p
      \<and> POIarray_values ob = [x] \<and> POIarray_values ob = POIarray_values (h1 ! a)"
    by (simp add: A ob_def POI_value_def POIarray_values_def)
  have frame: "\<forall>r<length h1. (h1 @ [ob]) ! r = h1 ! r"
    by (simp add: nth_append)
  from x as mk cmp props frame show ?thesis by blast
qed

text \<open>The theorem at \<open>poi = POI(mu, 7)\<close>: \<open>asarray(poi) == POIarray(mu, [7])\<close>, and \<open>poi\<close> is
  the same object as before.\<close>

theorem asarray_new_POIarray_witness:
  "POI_call valid_all [] mu (Scalar (PyInt 7)) = (Inr 0, heap_POI_7)
   \<and> to_float64 (PyInt 7) = Inr (F64 False 1025 (3 * 2 ^ 50))
   \<and> POI_value (heap_POI_7 ! 0) = Inr (PyInt 7)
   \<and> asarray valid_all heap_POI_7 0 = (Inr 1, heap_asarray_7)
   \<and> cls (heap_asarray_7 ! 1) = POIarray_cls \<and> parameter (heap_asarray_7 ! 1) = mu
   \<and> POIarray_values (heap_asarray_7 ! 1) = [F64 False 1025 (3 * 2 ^ 50)]
   \<and> heap_asarray_7 ! 0 = heap_POI_7 ! 0
   \<and> POIarray_call valid_all heap_asarray_7 mu (Seq [PyInt 7]) = (Inr 2, heap_POIarray_7)
   \<and> eq_op heap_POIarray_7 1 2 = Inr True"
  using asarray_new_POIarray [of valid_all "[]" mu "PyInt 7" 0 heap_POI_7]
  by (simp add: heap_POI_7_def heap_asarray_7_def heap_POIarray_7_def exec_defs asarray_def)

text \<open>
  C8. For a valid parameter and a sequence of numbers that convert to \<open>float64\<close>,
  \<open>POIarray(parameter, values)\<close> succeeds with \<open>len\<close> equal to \<open>len(values)\<close>, \<open>shape\<close> the
  one-element tuple of that length, \<open>ndim\<close> 1, and stored values the \<open>float64\<close> conversions
  of the given numbers, ints and floats alike.
\<close>

theorem POIarray_len_shape_ndim:
  assumes "V p" and "np_array_float64 vs = Inr xs"
  shows "\<exists>ob. POIarray_call V h p (Seq vs) = (Inr (length h), h @ [ob])
           \<and> POIarray_len ob = length vs \<and> POIarray_shape ob = [length vs]
           \<and> POIarray_ndim ob = 1 \<and> POIarray_values ob = xs
           \<and> (\<forall>k<length vs. to_float64 (vs ! k) = Inr (POIarray_values ob ! k))"
  using assms
  by (simp add: POIarray_call_ok POIarray_len_def POIarray_shape_def POIarray_ndim_def
        POIarray_values_def np_array_float64_length np_array_float64_nth)

text \<open>The theorem at \<open>POIarray(mu, [1, 2.5])\<close>.\<close>

theorem POIarray_len_shape_ndim_witness:
  "valid_all mu
   \<and> np_array_float64 [PyInt 1, PyFloat (F64 False 1024 (2 ^ 50))]
       = Inr [F64 False 1023 0, F64 False 1024 (2 ^ 50)]
   \<and> POIarray_call valid_all [] mu (Seq [PyInt 1, PyFloat (F64 False 1024 (2 ^ 50))]) = (Inr 0, heap_mixed)
   \<and> POIarray_len (heap_mixed ! 0) = 2 \<and> POIarray_shape (heap_mixed ! 0) = [2]
   \<and> POIarray_ndim (heap_mixed ! 0) = 1
   \<and> POIarray_values (heap_mixed ! 0) = [F64 False 1023 0, F64 False 1024 (2 ^ 50)]"
  using POIarray_len_shape_ndim [of valid_all mu "[PyInt 1, PyFloat (F64 False 1024 (2 ^ 50))]"
      "[F64 False 1023 0, F64 False 1024 (2 ^ 50)]" "[]"]
  by (simp add: heap_mixed_def exec_defs POIarray_ndim_def POIarray_shape_def)

text \<open>
  C9 (as the code has it). For \<open>poi = POI(p, v)\<close>, \<open>poi.value\<close> is the argument \<open>v\<close> itself
  (an int stays an int), \<open>poi.values\<close> is the one-element array of its \<open>float64\<close> conversion
  \<open>x\<close>, and \<open>poi.value == poi.values[0]\<close> holds, in either order, exactly when \<open>x\<close> is not a
  NaN; the conversion of an int never is one.
\<close>

theorem POI_value_is_argument:
  assumes "POI_call V h p (Scalar v) = (Inr a, h1)"
  shows "\<exists>x. POI_value (h1 ! a) = Inr v \<and> to_float64 v = Inr x
           \<and> POIarray_values (h1 ! a) = [x]
           \<and> py_index (POIarray_values (h1 ! a)) 0 = Inr x
           \<and> num_eq v (NpFloat64 x) = (\<not> is_nan x)
           \<and> num_eq (NpFloat64 x) v = (\<not> is_nan x)
           \<and> (\<forall>n. v = PyInt n \<longrightarrow> \<not> is_nan x)"
proof -
  from assms obtain x where x: "to_float64 v = Inr x" and a: "a = length h"
    and h1: "h1 = h @ [\<lparr>cls = POI_cls, parameter = p, name = pname p, attr_values = [x],
               attr_ndim = 1, attr_shape = [1], attr_value = Some v\<rparr>]"
    by (auto dest!: POI_call_Inr)
  have A: "h1 ! a = \<lparr>cls = POI_cls, parameter = p, name = pname p, attr_values = [x],
               attr_ndim = 1, attr_shape = [1], attr_value = Some v\<rparr>"
    by (simp add: a h1)
  have props: "POI_value (h1 ! a) = Inr v \<and> POIarray_values (h1 ! a) = [x]
      \<and> py_index (POIarray_values (h1 ! a)) 0 = Inr x"
    by (simp add: A POI_value_def POIarray_values_def py_index_def)
  have cmp: "num_eq v (NpFloat64 x) = (\<not> is_nan x) \<and> num_eq (NpFloat64 x) v = (\<not> is_nan x)"
    using num_eq_coercion [OF x] by simp
  have int: "\<forall>n. v = PyInt n \<longrightarrow> \<not> is_nan x"
    using x by (auto dest: int_coercion_not_nan)
  from x props cmp int show ?thesis by blast
qed

text \<open>The theorem at \<open>POI(mu, 5)\<close>: the value is the int 5, the stored element is 5.0, and
  the two are equal; and at \<open>POI(mu, 2**53 + 1)\<close>: the stored element is \<open>2.0**53\<close>, and the
  two are equal.\<close>

theorem POI_value_is_argument_witness:
  "POI_call valid_all [] mu (Scalar (PyInt 5)) = (Inr 0, heap_POI_5)
   \<and> POI_value (heap_POI_5 ! 0) = Inr (PyInt 5)
   \<and> to_float64 (PyInt 5) = Inr (F64 False 1025 (2 ^ 50))
   \<and> POIarray_values (heap_POI_5 ! 0) = [F64 False 1025 (2 ^ 50)]
   \<and> py_index (POIarray_values (heap_POI_5 ! 0)) 0 = Inr (F64 False 1025 (2 ^ 50))
   \<and> \<not> is_nan (F64 False 1025 (2 ^ 50))
   \<and> num_eq (PyInt 5) (NpFloat64 (F64 False 1025 (2 ^ 50)))
   \<and> num_eq (NpFloat64 (F64 False 1025 (2 ^ 50))) (PyInt 5)
   \<and> POI_call valid_all [] mu (Scalar (PyInt 9007199254740993)) = (Inr 0, heap_POI_big)
   \<and> POI_value (heap_POI_big ! 0) = Inr (PyInt 9007199254740993)
   \<and> POIarray_values (heap_POI_big ! 0) = [F64 False 1076 0]
   \<and> num_eq (PyInt 9007199254740993) (NpFloat64 (F64 False 1076 0))
   \<and> num_eq (NpFloat64 (F64 False 1076 0)) (PyInt 9007199254740993)"
  using POI_value_is_argument [of valid_all "[]" mu "PyInt 5" 0 heap_POI_5]
    POI_value_is_argument [of valid_all "[]" mu "PyInt 9007199254740993" 0 heap_POI_big]
  by (simp add: heap_POI_5_def heap_POI_big_def exec_defs py_index_def)

text \<open>
  C9 as stated fails at a NaN: for \<open>poi = POI(mu, float('nan'))\<close>, \<open>poi.value\<close> and
  \<open>poi.values[0]\<close> do not compare equal.
\<close>

theorem POI_value_counterexample:
  "POI_call valid_all [] mu (Scalar (PyFloat nan)) = (Inr 0, heap_POI_nan)
   \<and> POI_value (heap_POI_nan ! 0) = Inr (PyFloat nan)
   \<and> py_index (POIarray_values (heap_POI_nan ! 0)) 0 = Inr nan
   \<and> \<not> num_eq (PyFloat nan) (NpFloat64 nan) \<and> \<not> num_eq (NpFloat64 nan) (PyFloat nan)"
  by (simp add: heap_POI_nan_def nan_def exec_defs py_index_def)

text \<open>
  C10. \<open>POI\<close> defines no \<open>append\<close>, so \<open>poi.append(w)\<close> runs \<open>POIarray.append\<close>: for
  \<open>poi = POI(p, v)\<close> and a scalar \<open>w\<close> that converts to \<open>float64\<close> it allocates one new object
  of class \<open>POIarray\<close>, not \<open>POI\<close>, of length 2, and \<open>poi\<close> is left as it was: a \<open>POI\<close> of
  length 1 with the same value.
\<close>

theorem POI_append_POIarray:
  assumes "POI_call V h p (Scalar v) = (Inr a, h1)" and "to_float64 w = Inr y"
  shows "\<exists>x ob. POIarray_append V h1 a (Scalar w) = (Inr (length h1), h1 @ [ob])
           \<and> cls ob = POIarray_cls \<and> cls ob \<noteq> POI_cls
           \<and> POIarray_values ob = [x, y] \<and> POIarray_len ob = 2
           \<and> (h1 @ [ob]) ! a = h1 ! a
           \<and> cls (h1 ! a) = POI_cls \<and> POIarray_len (h1 ! a) = 1
           \<and> POI_value (h1 ! a) = Inr v"
proof -
  from assms(1) obtain x where V: "V p" and x: "to_float64 v = Inr x" and a: "a = length h"
    and h1: "h1 = h @ [\<lparr>cls = POI_cls, parameter = p, name = pname p, attr_values = [x],
               attr_ndim = 1, attr_shape = [1], attr_value = Some v\<rparr>]"
    by (auto dest!: POI_call_Inr)
  have A: "h1 ! a = \<lparr>cls = POI_cls, parameter = p, name = pname p, attr_values = [x],
               attr_ndim = 1, attr_shape = [1], attr_value = Some v\<rparr>"
    by (simp add: a h1)
  define ob :: "'a poi_obj" where
    "ob = \<lparr>cls = POIarray_cls, parameter = p, name = pname p, attr_values = [x, y],
            attr_ndim = 1, attr_shape = [2], attr_value = None\<rparr>"
  have conv: "np_array_float64 [NpFloat64 x, w] = Inr [x, y]"
    by (simp add: to_float64_def assms(2)) (simp add: assms(2) [unfolded to_float64_def])
  have app: "POIarray_append V h1 a (Scalar w) = (Inr (length h1), h1 @ [ob])"
    using POIarray_call_ok [of V p "[NpFloat64 x, w]" "[x, y]" h1] V conv
    by (simp add: POIarray_append_def POIarray_values_def np_concatenate_def A ob_def)
  have same: "(h1 @ [ob]) ! a = h1 ! a"
    by (simp add: a h1 nth_append)
  have props: "cls ob = POIarray_cls \<and> cls ob \<noteq> POI_cls \<and> POIarray_values ob = [x, y]
      \<and> POIarray_len ob = 2 \<and> cls (h1 ! a) = POI_cls \<and> POIarray_len (h1 ! a) = 1
      \<and> POI_value (h1 ! a) = Inr v"
    by (simp add: A ob_def POIarray_values_def POIarray_len_def POI_value_def)
  from app same props show ?thesis by blast
qed

text \<open>The theorem at \<open>POI(mu, 5).append(6)\<close>.\<close>

theorem POI_append_POIarray_witness:
  "POI_call valid_all [] mu (Scalar (PyInt 5)) = (Inr 0, heap_POI_5)
   \<and> to_float64 (PyInt 6) = Inr (F64 False 1025 (2 ^ 51))
   \<and> POIarray_append valid_all heap_POI_5 0 (Scalar (PyInt 6)) = (Inr 1, heap_POI_5_append)
   \<and> cls (heap_POI_5_append ! 1) = POIarray_cls
   \<and> POIarray_values (heap_POI_5_append ! 1) = [F64 False 1025 (2 ^ 50), F64 False 1025 (2 ^ 51)]
   \<and> POIarray_len (heap_POI_5_append ! 1) = 2
   \<and> heap_POI_5_append ! 0 = heap_POI_5 ! 0
   \<and> cls (heap_POI_5_append ! 0) = POI_cls \<and> POIarray_len (heap_POI_5_append ! 0) = 1
   \<and> POI_value (heap_POI_5_append ! 0) = Inr (PyInt 5)"
  using POI_append_POIarray [of valid_all "[]" mu "PyInt 5" 0 heap_POI_5 "PyInt 6" "F64 False 1025 (2 ^ 51)"]
  by (simp add: heap_POI_5_def heap_POI_5_append_def exec_defs POIarray_append_def
        np_concatenate_def)

end
